theory Spec2Isabelle
  imports Main "HOL-Library.Word" "HOL-Library.Sublist"
begin

section \<open>The operating-system interface of kuser_unix.cpp\<close>

text \<open>
  \<open>uid_t\<close>, \<open>gid_t\<close> and Qt's \<open>uint\<close> are unsigned 32-bit integers; the sentinel
  \<open>uid_t(-1)\<close> is the word \<open>- 1\<close> (all bits set).
\<close>

type_synonym uid_t = "32 word"
type_synonym gid_t = "32 word"
type_synonym uint = "32 word"

text \<open>\<open>struct passwd\<close> and \<open>struct group\<close> of \<open>pwd.h\<close> and \<open>grp.h\<close>: the fields the code reads.\<close>

record passwd =
  pw_name :: string
  pw_uid :: uid_t
  pw_gid :: gid_t
  pw_gecos :: string
  pw_dir :: string
  pw_shell :: string

record group_rec =
  gr_name :: string
  gr_gid :: gid_t
  gr_mem :: "string list"

text \<open>
  What the code can observe of the system: the real and effective uid of the process,
  its environment, the account and the group database in their iteration order, the two
  sequential cursors (\<open>None\<close>: closed) and the text \<open>strerror(errno)\<close> gives after a
  lookup that found nothing.
\<close>

record os =
  getuid :: uid_t
  geteuid :: uid_t
  environ :: "(string \<times> string) list"
  passwd_db :: "passwd list"
  group_db :: "group_rec list"
  pw_cursor :: "nat option"
  gr_cursor :: "nat option"
  strerror_errno :: string

text \<open>The lookups return a null pointer (\<open>None\<close>) when no record matches.\<close>

definition getpwnam :: "os \<Rightarrow> string \<Rightarrow> passwd option" where
  "getpwnam s name = find (\<lambda>p. pw_name p = name) (passwd_db s)"

definition getpwuid :: "os \<Rightarrow> uid_t \<Rightarrow> passwd option" where
  "getpwuid s u = find (\<lambda>p. pw_uid p = u) (passwd_db s)"

definition getgrnam :: "os \<Rightarrow> string \<Rightarrow> group_rec option" where
  "getgrnam s name = find (\<lambda>g. gr_name g = name) (group_db s)"


text \<open>\<open>qgetenv\<close> gives an empty byte array for a variable that is not set.\<close>

definition qgetenv :: "os \<Rightarrow> string \<Rightarrow> string" where
  "qgetenv s var = (case map_of (environ s) var of None \<Rightarrow> [] | Some v \<Rightarrow> v)"

text \<open>
  \<open>QString::toLocal8Bit().data()\<close> hands a C string to the lookup: it ends at the first
  NUL character.
\<close>

definition c_str :: "string \<Rightarrow> string" where
  "c_str name = takeWhile (\<lambda>c. c \<noteq> CHR 0x00) name"







section \<open>Qt primitives\<close>

text \<open>
  \<open>QString::split(sep)\<close> with the default \<open>KeepEmptyParts\<close>: the pieces between the
  separators, empty ones included; the empty string gives one empty piece. The scan
  collects the current piece until the next separator.
\<close>

fun split_from :: "char \<Rightarrow> string \<Rightarrow> string \<Rightarrow> string list" where
  "split_from sep piece [] = [piece]"
| "split_from sep piece (c # cs) =
     (if c = sep then piece # split_from sep [] cs else split_from sep (piece @ [c]) cs)"

definition split :: "char \<Rightarrow> string \<Rightarrow> string list" where
  "split sep str = split_from sep [] str"

text \<open>\<open>QList::mid(0, n)\<close> for \<open>n \<ge> 0\<close>: the first \<open>n\<close> entries, or all when there are fewer.\<close>

definition mid0 :: "'a list \<Rightarrow> nat \<Rightarrow> 'a list" where
  "mid0 xs n = take n xs"

section \<open>KUser\<close>

datatype UserProperty = FullName | RoomNumber | WorkPhone | HomePhone

datatype UIDMode = UseEffectiveUID | UseRealUserID

text \<open>
  \<open>KUser::Private\<close>. A \<open>KUser\<close> is a shared pointer to one such record that is never
  written after construction, so the record is the value of the \<open>KUser\<close>. The
  \<open>QVariant\<close> stored in \<open>properties\<close> is always a string; a key that is absent reads as
  the null \<open>QVariant\<close> (\<open>None\<close>).
\<close>

record KUser =
  uid :: uid_t
  gid :: gid_t
  loginName :: string
  homeDir :: string
  shell :: string
  properties :: "UserProperty \<Rightarrow> string option"

text \<open>The member initialisers of every \<open>Private\<close> constructor: \<open>uid(uid_t(-1)), gid(gid_t(-1))\<close>.\<close>

definition Private_init :: KUser where
  "Private_init =
     \<lparr>uid = - 1, gid = - 1, loginName = [], homeDir = [], shell = [],
      properties = (\<lambda>_. None)\<rparr>"

text \<open>The loop \<open>while (gecosList.size() < 4) gecosList << QString()\<close>.\<close>

function fill_up :: "string list \<Rightarrow> string list" where
  "fill_up gecosList = (if length gecosList < 4 then fill_up (gecosList @ [[]]) else gecosList)"
  by pat_completeness auto
termination
  by (relation "measure (\<lambda>l. 4 - length l)") auto

declare fill_up.simps [simp del]

definition fillPasswd :: "os \<Rightarrow> passwd option \<Rightarrow> KUser \<Rightarrow> KUser" where
  "fillPasswd s p d =
     (case p of
        None \<Rightarrow> d
      | Some p \<Rightarrow>
          let gecosList = fill_up (split CHR '','' (pw_gecos p));
              d1 = d\<lparr>uid := pw_uid p, gid := pw_gid p, loginName := pw_name p,
                     properties := (properties d)
                       (FullName \<mapsto> gecosList ! 0, RoomNumber \<mapsto> gecosList ! 1,
                        WorkPhone \<mapsto> gecosList ! 2, HomePhone \<mapsto> gecosList ! 3)\<rparr>;
              d2 = (if uid d1 = getuid s \<and> uid d1 = geteuid s
                    then d1\<lparr>homeDir := qgetenv s ''HOME''\<rparr> else d1);
              d3 = (if homeDir d2 = [] then d2\<lparr>homeDir := pw_dir p\<rparr> else d2)
          in d3\<lparr>shell := pw_shell p\<rparr>)"

text \<open>\<open>Private(const char *name)\<close>; the argument may be the null pointer (\<open>None\<close>).\<close>

definition Private_name :: "os \<Rightarrow> string option \<Rightarrow> KUser" where
  "Private_name s name =
     fillPasswd s (case name of None \<Rightarrow> None | Some n \<Rightarrow> getpwnam s n) Private_init"

text \<open>\<open>Private(const passwd *p)\<close>.\<close>

definition Private_passwd :: "os \<Rightarrow> passwd option \<Rightarrow> KUser" where
  "Private_passwd s p = fillPasswd s p Private_init"

text \<open>The constructors of \<open>KUser\<close>.\<close>

definition KUser_mode :: "os \<Rightarrow> UIDMode \<Rightarrow> KUser" where
  "KUser_mode s mode =
     (if mode = UseEffectiveUID \<and> geteuid s \<noteq> getuid s
      then Private_passwd s (getpwuid s (geteuid s))
      else
        let d = Private_name s (Some (qgetenv s ''LOGNAME''))
        in if uid d \<noteq> getuid s
           then
             let d' = Private_name s (Some (qgetenv s ''USER''))
             in if uid d' \<noteq> getuid s
                then Private_passwd s (getpwuid s (getuid s))
                else d'
           else d)"

definition KUser_uid :: "os \<Rightarrow> uid_t \<Rightarrow> KUser" where
  "KUser_uid s u = Private_passwd s (getpwuid s u)"

definition KUser_QString :: "os \<Rightarrow> string \<Rightarrow> KUser" where
  "KUser_QString s name = Private_name s (Some (c_str name))"

definition KUser_cstr :: "os \<Rightarrow> string option \<Rightarrow> KUser" where
  "KUser_cstr s name = Private_name s name"

definition KUser_passwd :: "os \<Rightarrow> passwd option \<Rightarrow> KUser" where
  "KUser_passwd s p = Private_passwd s p"

text \<open>\<open>KUser::isValid\<close>, \<open>operator==\<close> and \<open>operator!=\<close>.\<close>

definition isValid :: "KUser \<Rightarrow> bool" where
  "isValid u = (uid u \<noteq> - 1)"

definition KUser_eq :: "KUser \<Rightarrow> KUser \<Rightarrow> bool" where
  "KUser_eq u user = (isValid u \<and> uid u = uid user)"

definition KUser_neq :: "KUser \<Rightarrow> KUser \<Rightarrow> bool" where
  "KUser_neq u user = (\<not> KUser_eq u user)"

text \<open>\<open>KUser::property\<close>: \<open>d->properties.value(which)\<close>.\<close>

definition property :: "KUser \<Rightarrow> UserProperty \<Rightarrow> string option" where
  "property u which = properties u which"

text \<open>\<open>KUser::loginName\<close>, \<open>homeDir\<close> and \<open>shell\<close> read the fields of the record.\<close>




section \<open>KUserGroup\<close>

text \<open>
  \<open>KUserGroup::Private\<close>, with the fields \<open>gid\<close>, \<open>name\<close> and \<open>users\<close> prefixed by
  \<open>g_\<close> to keep them apart from those of \<open>KUser\<close>.
\<close>

record KUserGroup =
  g_gid :: gid_t
  g_name :: string
  g_users :: "KUser list"

definition GPrivate_init :: KUserGroup where
  "GPrivate_init = \<lparr>g_gid = - 1, g_name = [], g_users = []\<rparr>"

text \<open>The loop \<open>for (char **user = p->gr_mem; *user; user++) users.append(KUser(*user))\<close>.\<close>

primrec append_members :: "os \<Rightarrow> string list \<Rightarrow> KUser list \<Rightarrow> KUser list" where
  "append_members s [] us = us"
| "append_members s (user # rest) us = append_members s rest (us @ [KUser_cstr s (Some user)])"

definition fillGroup :: "os \<Rightarrow> group_rec option \<Rightarrow> KUserGroup \<Rightarrow> KUserGroup" where
  "fillGroup s p d =
     (case p of
        None \<Rightarrow> d
      | Some p \<Rightarrow>
          d\<lparr>g_gid := gr_gid p, g_name := gr_name p,
            g_users := append_members s (gr_mem p) (g_users d)\<rparr>)"

definition GPrivate_name :: "os \<Rightarrow> string option \<Rightarrow> KUserGroup" where
  "GPrivate_name s name =
     fillGroup s (case name of None \<Rightarrow> None | Some n \<Rightarrow> getgrnam s n) GPrivate_init"

definition GPrivate_group :: "os \<Rightarrow> group_rec option \<Rightarrow> KUserGroup" where
  "GPrivate_group s p = fillGroup s p GPrivate_init"



definition KUserGroup_QString :: "os \<Rightarrow> string \<Rightarrow> KUserGroup" where
  "KUserGroup_QString s name = GPrivate_name s (Some (c_str name))"


definition KUserGroup_group :: "os \<Rightarrow> group_rec option \<Rightarrow> KUserGroup" where
  "KUserGroup_group s g = GPrivate_group s g"


text \<open>
  \<open>KUserGroup::users(uint maxCount)\<close>. The cast \<open>(int)maxCount\<close> reads the 32 bits as a
  two's complement number.
\<close>

definition users :: "KUserGroup \<Rightarrow> uint \<Rightarrow> KUser list" where
  "users d maxCount =
     (if sint maxCount < 0 then g_users d else mid0 (g_users d) (nat (sint maxCount)))"

text \<open>
  \<open>KUserGroup::userNames(uint maxCount)\<close>: the loop
  \<open>for (uint i = 0; i < (uint)d->users.size() && i < maxCount; ++i)\<close>.
\<close>

function userNames_loop :: "KUserGroup \<Rightarrow> uint \<Rightarrow> uint \<Rightarrow> string list \<Rightarrow> string list" where
  "userNames_loop d i maxCount result =
     (if i < word_of_nat (length (g_users d)) \<and> i < maxCount
      then userNames_loop d (i + 1) maxCount (result @ [loginName (g_users d ! unat i)])
      else result)"
  by pat_completeness auto
termination
proof (relation "measure (\<lambda>(d, i, m, r). unat m - unat i)")
  show "wf (measure (\<lambda>(d :: KUserGroup, i :: uint, m :: uint, r :: string list). unat m - unat i))"
    by simp
next
  fix d :: KUserGroup and i maxCount :: uint and result :: "string list"
  assume "i < word_of_nat (length (g_users d)) \<and> i < maxCount"
  then have lt: "unat i < unat maxCount" by (simp add: word_less_nat_alt)
  moreover have "unat maxCount < 2 ^ 32" using unsigned_less [of maxCount] by simp
  ultimately have "unat i + 1 < 2 ^ 32" by linarith
  then have "unat (i + 1) = Suc (unat i)" by (simp add: unat_word_ariths)
  with lt show "((d, i + 1, maxCount, result @ [loginName (g_users d ! unat i)]), (d, i, maxCount, result))
      \<in> measure (\<lambda>(d, i, m, r). unat m - unat i)"
    by simp
qed

declare userNames_loop.simps [simp del]

definition userNames :: "KUserGroup \<Rightarrow> uint \<Rightarrow> string list" where
  "userNames d maxCount = userNames_loop d 0 maxCount []"




section \<open>KUserId and KGroupId\<close>

text \<open>
  Modelled from the spec: the classes \<open>KUserId\<close> and \<open>KGroupId\<close> are declared in
  \<open>kuser.h\<close>, which is not among the sources. Following section 4.1 of the
  specification, an identifier wraps the native id, the default-constructed one holds the
  sentinel \<open>uid_t(-1)\<close> and is invalid, and \<open>isValid\<close> holds iff the native id is not the
  sentinel.
\<close>

datatype KUserId = KUserId (nativeId: uid_t)

datatype KGroupId = KGroupId (nativeGid: gid_t)

definition KUserId_default :: KUserId where
  "KUserId_default = KUserId (- 1)"

definition KGroupId_default :: KGroupId where
  "KGroupId_default = KGroupId (- 1)"

definition KUserId_isValid :: "KUserId \<Rightarrow> bool" where
  "KUserId_isValid k = (nativeId k \<noteq> - 1)"

definition KGroupId_isValid :: "KGroupId \<Rightarrow> bool" where
  "KGroupId_isValid k = (nativeGid k \<noteq> - 1)"

text \<open>\<open>KUser(KUserId _uid)\<close>: \<open>new Private(::getpwuid(_uid.nativeId()))\<close>.\<close>

definition KUser_KUserId :: "os \<Rightarrow> KUserId \<Rightarrow> KUser" where
  "KUser_KUserId s k = Private_passwd s (getpwuid s (nativeId k))"


text \<open>
  \<open>KUserId::fromName\<close> and \<open>KGroupId::fromName\<close>. The result is the identifier together
  with the lines written by \<open>qWarning\<close>; both the lookup and the \<open>%s\<close> of the message
  read \<open>name8Bit.constData()\<close>.
\<close>

definition KUserId_fromName :: "os \<Rightarrow> string \<Rightarrow> KUserId \<times> string list" where
  "KUserId_fromName s name =
     (let name8Bit = c_str name
      in case getpwnam s name8Bit of
           None \<Rightarrow>
             (KUserId_default,
              [''Failed to lookup user '' @ name8Bit @ '': '' @ strerror_errno s])
         | Some p \<Rightarrow> (KUserId (pw_uid p), []))"

definition KGroupId_fromName :: "os \<Rightarrow> string \<Rightarrow> KGroupId \<times> string list" where
  "KGroupId_fromName s name =
     (let name8Bit = c_str name
      in case getgrnam s name8Bit of
           None \<Rightarrow>
             (KGroupId_default,
              [''Failed to lookup group '' @ name8Bit @ '': '' @ strerror_errno s])
         | Some g \<Rightarrow> (KGroupId (gr_gid g), []))"



section \<open>A sample system\<close>

text \<open>
  A small system used to run the model on concrete inputs: the accounts \<open>root\<close> and
  \<open>ann\<close>, three groups of which \<open>nogroup\<close> has no members, and a process running as
  \<open>ann\<close> whose \<open>LOGNAME\<close> is stale.
\<close>

definition root_pw :: passwd where
  "root_pw = \<lparr>pw_name = ''root'', pw_uid = 0, pw_gid = 0, pw_gecos = ''root'',
     pw_dir = ''/root'', pw_shell = ''/bin/bash''\<rparr>"

definition ann_pw :: passwd where
  "ann_pw = \<lparr>pw_name = ''ann'', pw_uid = 1000, pw_gid = 100,
     pw_gecos = ''Ann Lee,12,,555,x,y'', pw_dir = ''/home/ann'', pw_shell = ''/bin/sh''\<rparr>"

definition nogroup_gr :: group_rec where
  "nogroup_gr = \<lparr>gr_name = ''nogroup'', gr_gid = 65534, gr_mem = []\<rparr>"

definition sample_os :: os where
  "sample_os =
     \<lparr>getuid = 1000, geteuid = 1000,
      environ = [(''LOGNAME'', ''root''), (''USER'', ''ann''), (''HOME'', ''/tmp/ann'')],
      passwd_db = [root_pw, ann_pw],
      group_db = [\<lparr>gr_name = ''root'', gr_gid = 0, gr_mem = [''root'']\<rparr>,
                  \<lparr>gr_name = ''users'', gr_gid = 100, gr_mem = [''ann'', ''root'', ''bob'']\<rparr>,
                  nogroup_gr],
      pw_cursor = None, gr_cursor = None,
      strerror_errno = ''No such file or directory''\<rparr>"

text \<open>
  A second system, whose databases list an account and a group under the identifier
  4294967295, the bit pattern of \<open>uid_t(-1)\<close> and \<open>gid_t(-1)\<close>.
\<close>

definition ghost_pw :: passwd where
  "ghost_pw = \<lparr>pw_name = ''ghost'', pw_uid = - 1, pw_gid = - 1, pw_gecos = ''Ghost'',
     pw_dir = ''/home/ghost'', pw_shell = ''/bin/sh''\<rparr>"

definition ghost_gr :: group_rec where
  "ghost_gr = \<lparr>gr_name = ''ghost'', gr_gid = - 1, gr_mem = []\<rparr>"

definition ghost_os :: os where
  "ghost_os = sample_os\<lparr>passwd_db := [root_pw, ghost_pw], group_db := [ghost_gr]\<rparr>"

text \<open>The group \<open>users\<close> of the sample system; its member \<open>bob\<close> has no account.\<close>

definition sample_group :: KUserGroup where
  "sample_group = KUserGroup_QString sample_os ''users''"

section \<open>Basic facts about the model\<close>

lemma fillPasswd_None [simp]: "fillPasswd s None d = d"
  by (simp add: fillPasswd_def)

lemma uid_fillPasswd_Some [simp]: "uid (fillPasswd s (Some p) d) = pw_uid p"
  by (simp add: fillPasswd_def Let_def)

lemma gid_fillPasswd_Some [simp]: "gid (fillPasswd s (Some p) d) = pw_gid p"
  by (simp add: fillPasswd_def Let_def)

lemma loginName_fillPasswd_Some [simp]: "loginName (fillPasswd s (Some p) d) = pw_name p"
  by (simp add: fillPasswd_def Let_def)

lemma shell_fillPasswd_Some [simp]: "shell (fillPasswd s (Some p) d) = pw_shell p"
  by (simp add: fillPasswd_def Let_def)

lemma Private_init_fields [simp]:
  "uid Private_init = - 1" "gid Private_init = - 1" "loginName Private_init = []"
  "homeDir Private_init = []" "shell Private_init = []"
  by (simp_all add: Private_init_def)

lemma homeDir_fillPasswd_Some:
  "homeDir (fillPasswd s (Some p) Private_init) =
     (if pw_uid p = getuid s \<and> pw_uid p = geteuid s \<and> qgetenv s ''HOME'' \<noteq> []
      then qgetenv s ''HOME'' else pw_dir p)"
  by (auto simp: fillPasswd_def Let_def Private_init_def)

lemma properties_fillPasswd_upd:
  "properties (fillPasswd s (Some p) d) =
     (properties d)
       (FullName \<mapsto> fill_up (split CHR '','' (pw_gecos p)) ! 0,
        RoomNumber \<mapsto> fill_up (split CHR '','' (pw_gecos p)) ! 1,
        WorkPhone \<mapsto> fill_up (split CHR '','' (pw_gecos p)) ! 2,
        HomePhone \<mapsto> fill_up (split CHR '','' (pw_gecos p)) ! 3)"
  by (simp add: fillPasswd_def Let_def)

lemma fillGroup_None [simp]: "fillGroup s None d = d"
  by (simp add: fillGroup_def)

lemma append_members_eq: "append_members s ms us = us @ map (\<lambda>m. KUser_cstr s (Some m)) ms"
  by (induction ms arbitrary: us) simp_all

lemma getpwuid_Some_uid: "getpwuid s u = Some p \<Longrightarrow> pw_uid p = u \<and> p \<in> set (passwd_db s)"
  by (auto simp: getpwuid_def find_Some_iff)

lemma getpwuid_None_iff: "getpwuid s u = None \<longleftrightarrow> (\<forall>p \<in> set (passwd_db s). pw_uid p \<noteq> u)"
  by (auto simp: getpwuid_def find_None_iff)

lemma fill_getpwuid:
  "fillPasswd s (getpwuid s i) Private_init = Private_init
   \<or> uid (fillPasswd s (getpwuid s i) Private_init) = i"
  by (cases "getpwuid s i") (auto dest: getpwuid_Some_uid)

lemma fill_getpwuid_absent:
  "\<forall>p \<in> set (passwd_db s). pw_uid p \<noteq> i \<Longrightarrow>
   fillPasswd s (getpwuid s i) Private_init = Private_init"
  using getpwuid_None_iff [of s i] by simp

lemma fill_up_eq: "fill_up xs = xs @ replicate (4 - length xs) []"
proof (induction xs rule: fill_up.induct)
  case (1 gecosList)
  show ?case
  proof (cases "length gecosList < 4")
    case True
    then have "4 - length gecosList = Suc (4 - length (gecosList @ [[]]))" by simp
    then have "replicate (4 - length gecosList) ([]::string)
        = [] # replicate (4 - length (gecosList @ [[]])) []"
      by (simp only: replicate_Suc)
    with True "1.IH" show ?thesis
      by (subst fill_up.simps) simp
  next
    case False
    then show ?thesis by (subst fill_up.simps) simp
  qed
qed

lemma length_fill_up: "4 \<le> length (fill_up xs)"
  by (simp add: fill_up_eq)

lemma split_from_not_Nil [simp]: "split_from sep piece cs \<noteq> []"
  by (induction cs arbitrary: piece) simp_all

lemma split_from_pieces:
  "w \<in> set (split_from sep piece cs) \<Longrightarrow> sep \<notin> set piece \<Longrightarrow> sep \<notin> set w"
proof (induction cs arbitrary: piece)
  case Nil
  then show ?case by simp
next
  case (Cons c cs)
  show ?case
  proof (cases "c = sep")
    case True
    with Cons.prems have "w = piece \<or> w \<in> set (split_from sep [] cs)" by simp
    then show ?thesis
    proof
      assume "w = piece"
      with Cons.prems show ?thesis by simp
    next
      assume "w \<in> set (split_from sep [] cs)"
      then show ?thesis using Cons.IH [of "[]"] by simp
    qed
  next
    case False
    with Cons.prems have "w \<in> set (split_from sep (piece @ [c]) cs)" by simp
    moreover from False Cons.prems have "sep \<notin> set (piece @ [c])" by auto
    ultimately show ?thesis by (rule Cons.IH)
  qed
qed

lemma split_from_join:
  "concat (map (\<lambda>w. sep # w) (split_from sep piece cs)) = sep # piece @ cs"
  by (induction cs arbitrary: piece) simp_all

lemma split_pieces: "w \<in> set (split sep cs) \<Longrightarrow> sep \<notin> set w"
  using split_from_pieces [of w sep "[]" cs] by (simp add: split_def)

lemma split_join: "concat (map (\<lambda>w. sep # w) (split sep cs)) = sep # cs"
  by (simp add: split_def split_from_join)

lemma take4_nth:
  assumes "4 \<le> length l"
  shows "take 4 l = [l ! 0, l ! 1, l ! 2, l ! 3]"
proof -
  from assms obtain a l1 where 1: "l = a # l1" by (cases l) auto
  with assms obtain b l2 where 2: "l1 = b # l2" by (cases l1) auto
  with 1 assms obtain c l3 where 3: "l2 = c # l3" by (cases l2) auto
  with 1 2 assms obtain d l4 where 4: "l3 = d # l4" by (cases l3) auto
  show ?thesis by (simp add: 1 2 3 4)
qed

lemma properties_fillPasswd:
  "map (properties (fillPasswd s (Some p) d)) [FullName, RoomNumber, WorkPhone, HomePhone]
   = map Some (take 4 (fill_up (split CHR '','' (pw_gecos p))))"
proof -
  have "4 \<le> length (fill_up (split CHR '','' (pw_gecos p)))"
    by (rule length_fill_up)
  then show ?thesis
    by (simp add: properties_fillPasswd_upd take4_nth)
qed

lemma sint_neg_iff: "(sint (m::32 word) < 0) = (2 ^ 31 \<le> unat m)"
proof -
  have b: "unat m < 2 ^ 32" using unsigned_less [of m] by simp
  have "(sint m < 0) = bit m 31" using bit_last_iff [of m] by simp
  also have "\<dots> = bit (unat m) 31" by (simp add: bit_unsigned_iff)
  also have "\<dots> = odd (unat m div 2 ^ 31)" by (simp add: bit_iff_odd)
  also have "\<dots> = (2 ^ 31 \<le> unat m)"
  proof (cases "2 ^ 31 \<le> unat m")
    case True
    with b have "unat m div 2 ^ 31 = 1" by simp
    with True show ?thesis by simp
  next
    case False
    then have "unat m div 2 ^ 31 = 0" by simp
    with False show ?thesis by simp
  qed
  finally show ?thesis .
qed

lemma sint_nonneg_unat: "\<not> sint (m::32 word) < 0 \<Longrightarrow> nat (sint m) = unat m"
proof -
  assume a: "\<not> sint m < 0"
  then have "\<not> bit m 31" using bit_last_iff [of m] by simp
  then have nb: "\<not> bit (uint m) 31" by (simp add: bit_unsigned_iff)
  have "uint m < 2 ^ 32" using uint_lt2p [of m] by simp
  then have tb: "take_bit 32 (uint m) = uint m" by (simp add: take_bit_int_eq_self)
  have "sint m = signed_take_bit 31 (uint m)" by (simp add: sint_uint)
  also have "\<dots> = take_bit (Suc 31) (uint m) - 2 ^ Suc 31 * of_bool (bit (uint m) 31)"
    by (rule signed_take_bit_eq_take_bit_minus)
  also have "\<dots> = take_bit 32 (uint m)" using nb by simp
  also note tb
  finally have "sint m = uint m" .
  then show ?thesis by simp
qed

lemma users_eq_take:
  assumes "length (g_users d) < 2 ^ 31"
  shows "users d maxCount = take (unat maxCount) (g_users d)"
proof (cases "sint maxCount < 0")
  case True
  then have "2 ^ 31 \<le> unat maxCount" by (simp add: sint_neg_iff)
  with assms have "length (g_users d) \<le> unat maxCount" by linarith
  with True show ?thesis by (simp add: users_def)
next
  case False
  then show ?thesis by (simp add: users_def mid0_def sint_nonneg_unat)
qed

lemma userNames_loop_eq:
  "length (g_users d) < 2 ^ 32 \<Longrightarrow>
   userNames_loop d i maxCount acc
     = acc @ map loginName (drop (unat i) (take (unat maxCount) (g_users d)))"
proof (induction d i maxCount acc rule: userNames_loop.induct)
  case (1 d i maxCount result)
  let ?us = "g_users d"
  have sz: "unat (word_of_nat (length ?us) :: uint) = length ?us"
    using "1.prems" by (simp add: unat_of_nat)
  show ?case
  proof (cases "i < word_of_nat (length ?us) \<and> i < maxCount")
    case True
    then have lt: "unat i < length ?us" "unat i < unat maxCount"
      using sz by (simp_all add: word_less_nat_alt)
    have "unat maxCount < 2 ^ 32" using unsigned_less [of maxCount] by simp
    with lt have "unat i + 1 < 2 ^ 32" by linarith
    then have suc: "unat (i + 1) = Suc (unat i)" by (simp add: unat_word_ariths)
    from lt have len: "unat i < length (take (unat maxCount) ?us)" by simp
    have "drop (unat i) (take (unat maxCount) ?us)
        = take (unat maxCount) ?us ! unat i # drop (Suc (unat i)) (take (unat maxCount) ?us)"
      using len by (rule Cons_nth_drop_Suc [symmetric])
    also have "take (unat maxCount) ?us ! unat i = ?us ! unat i"
      using lt by simp
    finally have step: "drop (unat i) (take (unat maxCount) ?us)
        = ?us ! unat i # drop (Suc (unat i)) (take (unat maxCount) ?us)" .
    have "userNames_loop d i maxCount result
        = userNames_loop d (i + 1) maxCount (result @ [loginName (?us ! unat i)])"
      using True by (subst userNames_loop.simps) simp
    also have "\<dots> = (result @ [loginName (?us ! unat i)])
        @ map loginName (drop (unat (i + 1)) (take (unat maxCount) ?us))"
      using True "1.prems" by (rule "1.IH")
    finally show ?thesis by (simp add: suc step)
  next
    case False
    then have "length ?us \<le> unat i \<or> unat maxCount \<le> unat i"
      using sz by (auto simp: word_less_nat_alt not_less)
    then have "drop (unat i) (take (unat maxCount) ?us) = []" by auto
    moreover have "userNames_loop d i maxCount result = result"
      using False by (subst userNames_loop.simps) auto
    ultimately show ?thesis by simp
  qed
qed

lemma users_unbounded: "users d (- 1) = g_users d"
  by (simp add: users_def)

lemma qgetenv_cursor [simp]:
  "qgetenv (s\<lparr>pw_cursor := c\<rparr>) v = qgetenv s v"
  "qgetenv (s\<lparr>gr_cursor := c\<rparr>) v = qgetenv s v"
  by (simp_all add: qgetenv_def)

lemma getpwnam_cursor [simp]:
  "getpwnam (s\<lparr>pw_cursor := c\<rparr>) n = getpwnam s n"
  "getpwnam (s\<lparr>gr_cursor := c\<rparr>) n = getpwnam s n"
  by (simp_all add: getpwnam_def)

lemma fillPasswd_os_cong:
  assumes "getuid s = getuid s'" "geteuid s = geteuid s'" "qgetenv s ''HOME'' = qgetenv s' ''HOME''"
  shows "fillPasswd s p d = fillPasswd s' p d"
  unfolding fillPasswd_def assms ..

lemma fillPasswd_cursor [simp]:
  "fillPasswd (s\<lparr>pw_cursor := c\<rparr>) p d = fillPasswd s p d"
  "fillPasswd (s\<lparr>gr_cursor := c\<rparr>) p d = fillPasswd s p d"
  by (rule fillPasswd_os_cong; simp)+

lemma KUser_passwd_pw_cursor [simp]: "KUser_passwd (s\<lparr>pw_cursor := c\<rparr>) p = KUser_passwd s p"
  by (simp add: KUser_passwd_def Private_passwd_def)

lemma KUser_cstr_gr_cursor [simp]: "KUser_cstr (s\<lparr>gr_cursor := c\<rparr>) n = KUser_cstr s n"
  by (cases n) (simp_all add: KUser_cstr_def Private_name_def)

lemma KUserGroup_group_gr_cursor [simp]:
  "KUserGroup_group (s\<lparr>gr_cursor := c\<rparr>) g = KUserGroup_group s g"
  by (cases g) (simp_all add: KUserGroup_group_def GPrivate_group_def fillGroup_def append_members_eq)







lemma c_str_idem [simp]: "c_str (c_str name) = c_str name"
  by (simp add: c_str_def)

lemma getpwnam_None_iff: "getpwnam s n = None \<longleftrightarrow> n \<notin> pw_name ` set (passwd_db s)"
  by (auto simp: getpwnam_def find_None_iff)

lemma getgrnam_None_iff: "getgrnam s n = None \<longleftrightarrow> n \<notin> gr_name ` set (group_db s)"
  by (auto simp: getgrnam_def find_None_iff)

lemma invalid_uid_lookup:
  "\<not> isValid (fillPasswd s (getpwuid s (- 1)) Private_init)"
  using fill_getpwuid [of s "- 1"] by (auto simp: isValid_def)




lemma ghost_lookups:
  "getpwnam ghost_os ''ghost'' = Some ghost_pw"
  "getpwuid ghost_os (- 1) = Some ghost_pw"
  "getgrnam ghost_os ''ghost'' = Some ghost_gr"
  "getuid ghost_os = 1000"
  by (simp_all add: getpwnam_def getpwuid_def getgrnam_def ghost_os_def sample_os_def
      root_pw_def ghost_pw_def ghost_gr_def)

lemma sample_lookups:
  "getpwnam sample_os ''root'' = Some root_pw"
  "getpwnam sample_os ''ann'' = Some ann_pw"
  "getpwnam sample_os ''bob'' = None"
  "getpwnam sample_os ''This_user_does_not_exist'' = None"
  "getpwnam sample_os [] = None"
  "getpwuid sample_os 1000 = Some ann_pw"
  "getpwuid sample_os (- 1) = None"
  "getgrnam sample_os ''nogroup'' = Some nogroup_gr"
  "getgrnam sample_os ''This_Group_does_not_exist'' = None"
  by (simp_all add: getpwnam_def getpwuid_def getgrnam_def sample_os_def root_pw_def ann_pw_def
      nogroup_gr_def)

lemma sample_env:
  "qgetenv sample_os ''LOGNAME'' = ''root''"
  "qgetenv sample_os ''USER'' = ''ann''"
  "qgetenv sample_os ''HOME'' = ''/tmp/ann''"
  "getuid sample_os = 1000" "geteuid sample_os = 1000"
  by (simp_all add: qgetenv_def sample_os_def)

section \<open>Equality of users\<close>

text \<open>
  Claim C1. \<open>operator==\<close> on two \<open>KUser\<close> objects is true iff both are valid and their
  stored uids are equal. Replacing the group id, login name, home directory, shell and
  properties of either side does not change the outcome, and \<open>operator!=\<close> is the
  negation of \<open>operator==\<close>.
\<close>

theorem KUser_eq_iff:
  "KUser_eq u1 u2 = (isValid u1 \<and> isValid u2 \<and> uid u1 = uid u2)
   \<and> KUser_eq (u1\<lparr>gid := a1, loginName := b1, homeDir := c1, shell := d1, properties := e1\<rparr>)
              (u2\<lparr>gid := a2, loginName := b2, homeDir := c2, shell := d2, properties := e2\<rparr>)
       = KUser_eq u1 u2
   \<and> KUser_neq u1 u2 = (\<not> KUser_eq u1 u2)"
  by (auto simp: KUser_eq_def KUser_neq_def isValid_def)

theorem KUser_eq_iff_witness:
  "KUser_eq (KUser_QString sample_os ''ann'') (KUser_uid sample_os 1000)
   \<and> \<not> KUser_eq (KUser_QString sample_os ''bob'') (KUser_QString sample_os ''bob'')
   \<and> KUser_neq (KUser_QString sample_os ''ann'') (KUser_QString sample_os ''root'')"
  using KUser_eq_iff [where ?u1.0 = "KUser_QString sample_os ''ann''"
      and ?u2.0 = "KUser_uid sample_os 1000"]
    KUser_eq_iff [where ?u1.0 = "KUser_QString sample_os ''bob''"
      and ?u2.0 = "KUser_QString sample_os ''bob''"]
    KUser_eq_iff [where ?u1.0 = "KUser_QString sample_os ''ann''"
      and ?u2.0 = "KUser_QString sample_os ''root''"]
  by (simp add: KUser_QString_def KUser_uid_def Private_name_def Private_passwd_def c_str_def
      sample_lookups isValid_def ann_pw_def root_pw_def)

section \<open>Validity\<close>



section \<open>Users without a record\<close>

text \<open>
  Claim C3, as stated, fails. \<open>KUser(KUserId)\<close> hands the native id to \<open>getpwuid\<close>
  without looking at it, so on a system whose account database has an entry with the
  uid 4294967295 a \<open>KUser\<close> constructed from the invalid identifier is filled from
  that entry: \<open>isValid()\<close> is false, but the login name, home directory and shell are
  those of the entry and not empty.
\<close>

theorem invalid_identity_counterexample:
  "\<not> KUserId_isValid KUserId_default
   \<and> \<not> isValid (KUser_KUserId ghost_os KUserId_default)
   \<and> loginName (KUser_KUserId ghost_os KUserId_default) = ''ghost''
   \<and> homeDir (KUser_KUserId ghost_os KUserId_default) = ''/home/ghost''
   \<and> shell (KUser_KUserId ghost_os KUserId_default) = ''/bin/sh''"
  by (simp add: KUserId_isValid_def KUserId_default_def KUser_KUserId_def Private_passwd_def
      ghost_lookups homeDir_fillPasswd_Some isValid_def ghost_pw_def)

text \<open>
  Claim C3, amended. A \<open>KUser\<close> constructed from a lookup that returns no record (a
  null record or name pointer, a name or a uid that is not in the database) has
  \<open>isValid() = false\<close>, and \<open>loginName()\<close>, \<open>homeDir()\<close> and \<open>shell()\<close> are empty. A
  \<open>KUser\<close> constructed from an invalid identifier always has \<open>isValid() = false\<close>; its
  three accessors are empty when no account of the database has the sentinel
  \<open>uid_t(-1)\<close> as its uid, and otherwise the login name and the shell are those of the
  first such account.
\<close>

theorem invalid_user_accessors_empty:
  "((u = KUser_passwd s None \<or> u = KUser_cstr s None
     \<or> (\<exists>n. getpwnam s n = None \<and> u = KUser_cstr s (Some n))
     \<or> (\<exists>n. getpwnam s (c_str n) = None \<and> u = KUser_QString s n)
     \<or> (\<exists>i. getpwuid s i = None \<and> (u = KUser_uid s i \<or> u = KUser_KUserId s (KUserId i)))
     \<or> ((\<forall>p \<in> set (passwd_db s). pw_uid p \<noteq> - 1)
         \<and> (\<exists>k. \<not> KUserId_isValid k \<and> (u = KUser_KUserId s k \<or> u = KUser_uid s (nativeId k)))))
    \<longrightarrow> \<not> isValid u \<and> loginName u = [] \<and> homeDir u = [] \<and> shell u = [])
   \<and> (\<not> KUserId_isValid k \<longrightarrow>
        \<not> isValid (KUser_KUserId s k) \<and> \<not> isValid (KUser_uid s (nativeId k)))
   \<and> (\<forall>p. \<not> KUserId_isValid k \<and> getpwuid s (- 1) = Some p \<longrightarrow>
        loginName (KUser_KUserId s k) = pw_name p \<and> shell (KUser_KUserId s k) = pw_shell p)"
proof (intro conjI impI allI)
  assume a: "u = KUser_passwd s None \<or> u = KUser_cstr s None
     \<or> (\<exists>n. getpwnam s n = None \<and> u = KUser_cstr s (Some n))
     \<or> (\<exists>n. getpwnam s (c_str n) = None \<and> u = KUser_QString s n)
     \<or> (\<exists>i. getpwuid s i = None \<and> (u = KUser_uid s i \<or> u = KUser_KUserId s (KUserId i)))
     \<or> ((\<forall>p \<in> set (passwd_db s). pw_uid p \<noteq> - 1)
         \<and> (\<exists>k. \<not> KUserId_isValid k \<and> (u = KUser_KUserId s k \<or> u = KUser_uid s (nativeId k))))"
  then have i: "u = Private_init"
    by (auto simp: KUser_passwd_def KUser_cstr_def KUser_QString_def KUser_uid_def
        KUser_KUserId_def Private_passwd_def Private_name_def KUserId_isValid_def
        fill_getpwuid_absent)
  from i show "\<not> isValid u" by (simp add: isValid_def)
  from i show "loginName u = []" by simp
  from i show "homeDir u = []" by simp
  from i show "shell u = []" by simp
next
  assume "\<not> KUserId_isValid k"
  then have k: "nativeId k = - 1" by (simp add: KUserId_isValid_def)
  show "\<not> isValid (KUser_KUserId s k)"
    using invalid_uid_lookup [of s] by (simp add: KUser_KUserId_def Private_passwd_def k)
  show "\<not> isValid (KUser_uid s (nativeId k))"
    using invalid_uid_lookup [of s] by (simp add: KUser_uid_def Private_passwd_def k)
next
  fix p
  assume "\<not> KUserId_isValid k \<and> getpwuid s (- 1) = Some p"
  then have k: "nativeId k = - 1" and g: "getpwuid s (- 1) = Some p"
    by (simp_all add: KUserId_isValid_def)
  show "loginName (KUser_KUserId s k) = pw_name p"
    by (simp add: KUser_KUserId_def Private_passwd_def k g)
  show "shell (KUser_KUserId s k) = pw_shell p"
    by (simp add: KUser_KUserId_def Private_passwd_def k g)
qed

theorem invalid_user_accessors_empty_witness:
  "list_all (\<lambda>p. pw_uid p \<noteq> - 1) (passwd_db sample_os)
   \<and> \<not> KUserId_isValid KUserId_default
   \<and> \<not> isValid (KUser_KUserId sample_os KUserId_default)
   \<and> loginName (KUser_KUserId sample_os KUserId_default) = []
   \<and> homeDir (KUser_KUserId sample_os KUserId_default) = []
   \<and> shell (KUser_KUserId sample_os KUserId_default) = []
   \<and> getpwnam sample_os (c_str ''bob'') = None
   \<and> \<not> isValid (KUser_QString sample_os ''bob'')
   \<and> loginName (KUser_QString sample_os ''bob'') = []
   \<and> homeDir (KUser_QString sample_os ''bob'') = []
   \<and> shell (KUser_QString sample_os ''bob'') = []
   \<and> getpwuid ghost_os (- 1) = Some ghost_pw
   \<and> \<not> isValid (KUser_KUserId ghost_os KUserId_default)
   \<and> loginName (KUser_KUserId ghost_os KUserId_default) = pw_name ghost_pw"
proof -
  have h1: "\<forall>p \<in> set (passwd_db sample_os). pw_uid p \<noteq> - 1"
    by (simp add: sample_os_def root_pw_def ann_pw_def)
  have h2: "\<not> KUserId_isValid KUserId_default"
    by (simp add: KUserId_isValid_def KUserId_default_def)
  have h3: "getpwnam sample_os (c_str ''bob'') = None"
    by (simp add: c_str_def sample_lookups)
  have h4: "getpwuid ghost_os (- 1) = Some ghost_pw"
    by (simp add: ghost_lookups)
  from h1 have h0: "list_all (\<lambda>p. pw_uid p \<noteq> - 1) (passwd_db sample_os)"
    by (simp add: list_all_iff)
  from h0 h1 h2 h3 h4
    invalid_user_accessors_empty [of "KUser_KUserId sample_os KUserId_default" sample_os
      KUserId_default]
    invalid_user_accessors_empty [of "KUser_QString sample_os ''bob''" sample_os
      KUserId_default]
    invalid_user_accessors_empty [of "KUser_QString sample_os ''bob''" ghost_os
      KUserId_default]
  show ?thesis by blast
qed

section \<open>Resolving names to identifiers\<close>

text \<open>
  Claim C4, as stated, fails in two places. A name that resolves need not give a valid
  identifier: the identifier of the record is returned as it is, so a record stored
  under the identifier 4294967295 gives the invalid identifier, and no warning. And a
  malformed name is not treated as not found: the lookup reads the name as a C string,
  so a name with an embedded NUL character resolves when the part before the NUL names
  an account.
\<close>

theorem fromName_counterexample:
  "getpwnam ghost_os (c_str ''ghost'') = Some ghost_pw
   \<and> KUserId_fromName ghost_os ''ghost'' = (KUserId_default, [])
   \<and> \<not> KUserId_isValid (fst (KUserId_fromName ghost_os ''ghost''))
   \<and> getgrnam ghost_os (c_str ''ghost'') = Some ghost_gr
   \<and> KGroupId_fromName ghost_os ''ghost'' = (KGroupId_default, [])
   \<and> \<not> KGroupId_isValid (fst (KGroupId_fromName ghost_os ''ghost''))
   \<and> KUserId_fromName sample_os (''ann'' @ [CHR 0x00] @ ''x'') = (KUserId 1000, [])
   \<and> KUserId_isValid (fst (KUserId_fromName sample_os (''ann'' @ [CHR 0x00] @ ''x'')))"
  by (simp add: KUserId_fromName_def KGroupId_fromName_def c_str_def ghost_lookups
      sample_lookups KUserId_default_def KGroupId_default_def KUserId_isValid_def
      KGroupId_isValid_def ghost_pw_def ghost_gr_def ann_pw_def)

text \<open>
  Claim C4, amended. \<open>KUserId::fromName\<close> and \<open>KGroupId::fromName\<close> are total: the
  result is always an identifier together with the warnings written, and nothing is
  thrown. The name is looked up as a C string, that is up to its first NUL character; it
  does not resolve when no record of the database has that C string as its name, and the
  empty name gets no treatment of its own. For a name that does not resolve the result
  is the default-constructed, invalid identifier and exactly one warning is written;
  two names that do not resolve give the same identifier. For a name that resolves the
  result is the identifier of the record, with no warning; it is valid exactly when the
  identifier of the record is not the sentinel.
\<close>

theorem fromName_result:
  "(getpwnam s (c_str name) = None \<longrightarrow>
       fst (KUserId_fromName s name) = KUserId_default
     \<and> \<not> KUserId_isValid (fst (KUserId_fromName s name))
     \<and> snd (KUserId_fromName s name)
         = [''Failed to lookup user '' @ c_str name @ '': '' @ strerror_errno s])
   \<and> (getpwnam s (c_str name) = None \<and> getpwnam s (c_str name') = None \<longrightarrow>
       fst (KUserId_fromName s name) = fst (KUserId_fromName s name'))
   \<and> (\<forall>p. getpwnam s (c_str name) = Some p \<longrightarrow>
       fst (KUserId_fromName s name) = KUserId (pw_uid p)
     \<and> snd (KUserId_fromName s name) = []
     \<and> KUserId_isValid (fst (KUserId_fromName s name)) = (pw_uid p \<noteq> - 1))
   \<and> (getgrnam s (c_str name) = None \<longrightarrow>
       fst (KGroupId_fromName s name) = KGroupId_default
     \<and> \<not> KGroupId_isValid (fst (KGroupId_fromName s name))
     \<and> snd (KGroupId_fromName s name)
         = [''Failed to lookup group '' @ c_str name @ '': '' @ strerror_errno s])
   \<and> (getgrnam s (c_str name) = None \<and> getgrnam s (c_str name') = None \<longrightarrow>
       fst (KGroupId_fromName s name) = fst (KGroupId_fromName s name'))
   \<and> (\<forall>g. getgrnam s (c_str name) = Some g \<longrightarrow>
       fst (KGroupId_fromName s name) = KGroupId (gr_gid g)
     \<and> snd (KGroupId_fromName s name) = []
     \<and> KGroupId_isValid (fst (KGroupId_fromName s name)) = (gr_gid g \<noteq> - 1))
   \<and> KUserId_fromName s name = KUserId_fromName s (c_str name)
   \<and> KGroupId_fromName s name = KGroupId_fromName s (c_str name)
   \<and> (getpwnam s (c_str name) = None) = (c_str name \<notin> pw_name ` set (passwd_db s))
   \<and> (getgrnam s (c_str name) = None) = (c_str name \<notin> gr_name ` set (group_db s))"
proof -
  have results: "(getpwnam s (c_str name) = None \<longrightarrow>
       fst (KUserId_fromName s name) = KUserId_default
     \<and> \<not> KUserId_isValid (fst (KUserId_fromName s name))
     \<and> snd (KUserId_fromName s name)
         = [''Failed to lookup user '' @ c_str name @ '': '' @ strerror_errno s])
   \<and> (getpwnam s (c_str name) = None \<and> getpwnam s (c_str name') = None \<longrightarrow>
       fst (KUserId_fromName s name) = fst (KUserId_fromName s name'))
   \<and> (\<forall>p. getpwnam s (c_str name) = Some p \<longrightarrow>
       fst (KUserId_fromName s name) = KUserId (pw_uid p)
     \<and> snd (KUserId_fromName s name) = []
     \<and> KUserId_isValid (fst (KUserId_fromName s name)) = (pw_uid p \<noteq> - 1))
   \<and> (getgrnam s (c_str name) = None \<longrightarrow>
       fst (KGroupId_fromName s name) = KGroupId_default
     \<and> \<not> KGroupId_isValid (fst (KGroupId_fromName s name))
     \<and> snd (KGroupId_fromName s name)
         = [''Failed to lookup group '' @ c_str name @ '': '' @ strerror_errno s])
   \<and> (getgrnam s (c_str name) = None \<and> getgrnam s (c_str name') = None \<longrightarrow>
       fst (KGroupId_fromName s name) = fst (KGroupId_fromName s name'))
   \<and> (\<forall>g. getgrnam s (c_str name) = Some g \<longrightarrow>
       fst (KGroupId_fromName s name) = KGroupId (gr_gid g)
     \<and> snd (KGroupId_fromName s name) = []
     \<and> KGroupId_isValid (fst (KGroupId_fromName s name)) = (gr_gid g \<noteq> - 1))"
    by (simp add: KUserId_fromName_def KGroupId_fromName_def Let_def KUserId_default_def
        KGroupId_default_def KUserId_isValid_def KGroupId_isValid_def)
  have u: "KUserId_fromName s name = KUserId_fromName s (c_str name)"
    by (simp add: KUserId_fromName_def)
  have g: "KGroupId_fromName s name = KGroupId_fromName s (c_str name)"
    by (simp add: KGroupId_fromName_def)
  have nu: "(getpwnam s (c_str name) = None) = (c_str name \<notin> pw_name ` set (passwd_db s))"
    by (rule getpwnam_None_iff)
  have ng: "(getgrnam s (c_str name) = None) = (c_str name \<notin> gr_name ` set (group_db s))"
    by (rule getgrnam_None_iff)
  show ?thesis
    by (insert results u g nu ng) (elim conjE, intro conjI, assumption+)
qed

theorem fromName_result_witness:
  "getpwnam sample_os (c_str ''This_user_does_not_exist'') = None
   \<and> getpwnam sample_os (c_str []) = None
   \<and> getpwnam sample_os (c_str ''ann'') = Some ann_pw \<and> pw_uid ann_pw \<noteq> - 1
   \<and> getgrnam sample_os (c_str ''This_Group_does_not_exist'') = None
   \<and> getgrnam sample_os (c_str ''nogroup'') = Some nogroup_gr \<and> gr_gid nogroup_gr \<noteq> - 1
   \<and> KUserId_fromName sample_os ''This_user_does_not_exist''
       = (KUserId (- 1),
          [''Failed to lookup user This_user_does_not_exist: No such file or directory''])
   \<and> fst (KUserId_fromName sample_os []) = fst (KUserId_fromName sample_os ''This_user_does_not_exist'')
   \<and> KUserId_fromName sample_os ''ann'' = (KUserId 1000, [])
   \<and> KUserId_isValid (fst (KUserId_fromName sample_os ''ann''))
   \<and> \<not> KGroupId_isValid (fst (KGroupId_fromName sample_os ''This_Group_does_not_exist''))
   \<and> KGroupId_fromName sample_os ''nogroup'' = (KGroupId 65534, [])
   \<and> KGroupId_isValid (fst (KGroupId_fromName sample_os ''nogroup''))
   \<and> KUserId_fromName sample_os [] = (KUserId (- 1), [''Failed to lookup user : No such file or directory''])"
proof -
  have c: "c_str ''This_user_does_not_exist'' = ''This_user_does_not_exist''"
    "c_str [] = []" "c_str ''ann'' = ''ann''"
    "c_str ''This_Group_does_not_exist'' = ''This_Group_does_not_exist''"
    "c_str ''nogroup'' = ''nogroup''"
    by (simp_all add: c_str_def)
  have e: "strerror_errno sample_os = ''No such file or directory''"
    by (simp add: sample_os_def)
  have i: "pw_uid ann_pw = 1000" "gr_gid nogroup_gr = 65534"
    by (simp_all add: ann_pw_def nogroup_gr_def)
  note t1 = fromName_result [of sample_os "''This_user_does_not_exist''" "[]", THEN conjunct1]
  note t2 = fromName_result [of sample_os "''ann''" "[]",
      THEN conjunct2, THEN conjunct2, THEN conjunct1]
  note t3 = fromName_result [of sample_os "''This_Group_does_not_exist''" "[]",
      THEN conjunct2, THEN conjunct2, THEN conjunct2, THEN conjunct1]
  note t4 = fromName_result [of sample_os "''nogroup''" "[]",
      THEN conjunct2, THEN conjunct2, THEN conjunct2, THEN conjunct2, THEN conjunct2,
      THEN conjunct1]
  note t5 = fromName_result [of sample_os "[]" "[]", THEN conjunct1]
  show ?thesis
    using t1 t2 t3 t4 t5
    by (simp add: c e i sample_lookups KUserId_default_def KGroupId_default_def
        KUserId_isValid_def KGroupId_isValid_def prod_eq_iff)
qed

section \<open>Filling a user from an account record\<close>

text \<open>
  Claim C5. When a \<open>KUser\<close> is filled from an account record, the gecos field is split
  on commas, the list is filled up with empty strings to at least four segments, and
  the first four segments are stored, in this order, as \<open>FullName\<close>, \<open>RoomNumber\<close>,
  \<open>WorkPhone\<close> and \<open>HomePhone\<close>; segments after the fourth are not stored. The
  segments are the pieces of the field between its commas: joined with commas they
  give the field back, and none of them contains a comma.
\<close>

theorem gecos_properties:
  "map (property (Private_passwd s (Some p))) [FullName, RoomNumber, WorkPhone, HomePhone]
     = map Some (take 4 (split CHR '','' (pw_gecos p)
                         @ replicate (4 - length (split CHR '','' (pw_gecos p))) []))
   \<and> 4 \<le> length (fill_up (split CHR '','' (pw_gecos p)))
   \<and> fill_up (split CHR '','' (pw_gecos p))
       = split CHR '','' (pw_gecos p) @ replicate (4 - length (split CHR '','' (pw_gecos p))) []
   \<and> concat (map (\<lambda>w. CHR '','' # w) (split CHR '','' (pw_gecos p))) = CHR '','' # pw_gecos p
   \<and> CHR '','' \<notin> \<Union> (set ` set (split CHR '','' (pw_gecos p)))"
proof (intro conjI)
  have "property (Private_passwd s (Some p)) = properties (fillPasswd s (Some p) Private_init)"
    by (rule ext) (simp add: property_def Private_passwd_def)
  then show "map (property (Private_passwd s (Some p))) [FullName, RoomNumber, WorkPhone, HomePhone]
     = map Some (take 4 (split CHR '','' (pw_gecos p)
                         @ replicate (4 - length (split CHR '','' (pw_gecos p))) []))"
    using properties_fillPasswd [of s p Private_init]
    by (simp only: fill_up_eq)
  show "4 \<le> length (fill_up (split CHR '','' (pw_gecos p)))"
    by (rule length_fill_up)
  show "fill_up (split CHR '','' (pw_gecos p))
       = split CHR '','' (pw_gecos p) @ replicate (4 - length (split CHR '','' (pw_gecos p))) []"
    by (rule fill_up_eq)
  show "concat (map (\<lambda>w. CHR '','' # w) (split CHR '','' (pw_gecos p))) = CHR '','' # pw_gecos p"
    by (rule split_join)
  show "CHR '','' \<notin> \<Union> (set ` set (split CHR '','' (pw_gecos p)))"
    using split_pieces [of _ "CHR '',''" "pw_gecos p"] by blast
qed

theorem gecos_properties_witness:
  "map (property (Private_passwd sample_os (Some ann_pw)))
      [FullName, RoomNumber, WorkPhone, HomePhone]
     = [Some ''Ann Lee'', Some ''12'', Some [], Some ''555'']
   \<and> map (property (Private_passwd sample_os (Some root_pw)))
      [FullName, RoomNumber, WorkPhone, HomePhone]
     = [Some ''root'', Some [], Some [], Some []]"
  using gecos_properties [of sample_os ann_pw] gecos_properties [of sample_os root_pw]
  by (simp add: split_def ann_pw_def root_pw_def numeral_3_eq_3)

text \<open>
  Claim C6. When a \<open>KUser\<close> is filled from an account record, its home directory is the
  value of \<open>HOME\<close> if the uid of the record equals both the real and the effective uid
  of the process and \<open>HOME\<close> has a non-empty value; otherwise (another uid, or \<open>HOME\<close>
  unset or empty) it is the \<open>pw_dir\<close> field of the record.
\<close>

theorem homeDir_rule:
  "homeDir (Private_passwd s (Some p)) =
     (if pw_uid p = getuid s \<and> pw_uid p = geteuid s \<and> qgetenv s ''HOME'' \<noteq> []
      then qgetenv s ''HOME'' else pw_dir p)
   \<and> (qgetenv s ''HOME'' = []) = (map_of (environ s) ''HOME'' \<in> {None, Some []})"
  by (auto simp: Private_passwd_def homeDir_fillPasswd_Some qgetenv_def split: option.splits)

theorem homeDir_rule_witness:
  "homeDir (Private_passwd sample_os (Some ann_pw)) = ''/tmp/ann''
   \<and> homeDir (Private_passwd sample_os (Some root_pw)) = ''/root''
   \<and> homeDir (Private_passwd (sample_os\<lparr>environ := []\<rparr>) (Some ann_pw)) = ''/home/ann''
   \<and> homeDir (Private_passwd (sample_os\<lparr>geteuid := 0\<rparr>) (Some ann_pw)) = ''/home/ann''"
  using homeDir_rule [of sample_os ann_pw] homeDir_rule [of sample_os root_pw]
    homeDir_rule [of "sample_os\<lparr>environ := []\<rparr>" ann_pw]
    homeDir_rule [of "sample_os\<lparr>geteuid := 0\<rparr>" ann_pw]
  by (simp add: sample_os_def qgetenv_def ann_pw_def root_pw_def)

section \<open>The user of the running process\<close>

text \<open>
  Claim C7. In real-user mode the constructor first takes the account named by
  \<open>LOGNAME\<close>; if the uid of that candidate is not the real uid of the process it takes
  the account named by \<open>USER\<close>; if the uid of that candidate is not the real uid either
  it looks the real uid up with \<open>getpwuid\<close>. A candidate from the environment is
  accepted only when its uid is the real uid, so the result either carries the real uid
  or is the empty record of a failed lookup.
\<close>

theorem real_mode_resolution:
  "KUser_mode s UseRealUserID =
     (if uid (KUser_cstr s (Some (qgetenv s ''LOGNAME''))) = getuid s
      then KUser_cstr s (Some (qgetenv s ''LOGNAME''))
      else if uid (KUser_cstr s (Some (qgetenv s ''USER''))) = getuid s
      then KUser_cstr s (Some (qgetenv s ''USER''))
      else KUser_uid s (getuid s))
   \<and> (uid (KUser_mode s UseRealUserID) = getuid s \<or> KUser_mode s UseRealUserID = Private_init)"
  using fill_getpwuid [of s "getuid s"]
  by (auto simp: KUser_mode_def KUser_cstr_def KUser_uid_def Let_def Private_passwd_def)

theorem real_mode_resolution_witness:
  "uid (KUser_cstr sample_os (Some (qgetenv sample_os ''LOGNAME''))) \<noteq> getuid sample_os
   \<and> KUser_mode sample_os UseRealUserID = KUser_cstr sample_os (Some ''ann'')
   \<and> loginName (KUser_mode sample_os UseRealUserID) = ''ann''
   \<and> KUser_mode (sample_os\<lparr>environ := []\<rparr>) UseRealUserID
       = KUser_uid (sample_os\<lparr>environ := []\<rparr>) 1000"
proof -
  have l: "getpwnam (sample_os\<lparr>environ := []\<rparr>) [] = None"
    by (simp add: getpwnam_def sample_os_def root_pw_def ann_pw_def)
  have e: "qgetenv (sample_os\<lparr>environ := []\<rparr>) ''LOGNAME'' = []"
    "qgetenv (sample_os\<lparr>environ := []\<rparr>) ''USER'' = []"
    "getuid (sample_os\<lparr>environ := []\<rparr>) = 1000"
    by (simp_all add: qgetenv_def sample_os_def)
  show ?thesis
    using real_mode_resolution [of sample_os] real_mode_resolution [of "sample_os\<lparr>environ := []\<rparr>"]
    by (simp add: l e sample_env sample_lookups KUser_cstr_def Private_name_def root_pw_def
        ann_pw_def)
qed

section \<open>Members of a group\<close>

text \<open>
  Claim C8. For every group and every \<open>maxCount\<close>, \<open>users(maxCount)\<close> is a prefix of the
  stored member list with at most \<open>maxCount\<close> entries, namely its first \<open>maxCount\<close>
  entries; for a \<open>maxCount\<close> that is not below the number of members, and so for the
  unbounded default (the largest \<open>uint\<close>, all bits set), it is the whole stored list. A
  \<open>QList\<close> holds fewer than \<open>2^31\<close> entries, its size being an \<open>int\<close>.
\<close>

theorem users_prefix:
  assumes "length (g_users d) < 2 ^ 31"
  shows "prefix (users d maxCount) (g_users d)
       \<and> length (users d maxCount) \<le> unat maxCount
       \<and> users d maxCount = take (unat maxCount) (g_users d)
       \<and> (length (g_users d) \<le> unat maxCount \<longrightarrow> users d maxCount = g_users d)
       \<and> users d (- 1) = g_users d"
  using users_eq_take [OF assms, of maxCount] users_unbounded [of d]
  by (simp add: take_is_prefix)

theorem users_prefix_witness:
  "length (g_users sample_group) < 2 ^ 31
   \<and> g_users sample_group
       = [KUser_cstr sample_os (Some ''ann''), KUser_cstr sample_os (Some ''root''),
          KUser_cstr sample_os (Some ''bob'')]
   \<and> users sample_group 2
       = [KUser_cstr sample_os (Some ''ann''), KUser_cstr sample_os (Some ''root'')]
   \<and> users sample_group 0 = []
   \<and> users sample_group 2147483648 = g_users sample_group
   \<and> users sample_group (- 1) = g_users sample_group"
proof -
  have g: "g_users sample_group
       = [KUser_cstr sample_os (Some ''ann''), KUser_cstr sample_os (Some ''root''),
          KUser_cstr sample_os (Some ''bob'')]"
    by (simp add: sample_group_def KUserGroup_QString_def GPrivate_name_def c_str_def
        getgrnam_def sample_os_def fillGroup_def GPrivate_init_def)
  then have h: "length (g_users sample_group) < 2 ^ 31" by simp
  show ?thesis
    using users_prefix [OF h, of 2] users_prefix [OF h, of 0]
      users_prefix [OF h, of 2147483648] h
    by (simp add: g)
qed

text \<open>
  Claim C10. For every group and every \<open>maxCount\<close>, also beyond \<open>INT_MAX\<close> where
  \<open>users\<close> takes the branch of the negative cast while \<open>userNames\<close> compares unsigned,
  \<open>userNames(maxCount)\<close> is the list of the login names of \<open>users(maxCount)\<close>, in the
  same order.
\<close>

theorem userNames_eq_map_users:
  assumes "length (g_users d) < 2 ^ 31"
  shows "userNames d maxCount = map loginName (users d maxCount)"
proof -
  from assms have "length (g_users d) < 2 ^ 32" by simp
  then show ?thesis
    using users_eq_take [OF assms] by (simp add: userNames_def userNames_loop_eq)
qed

theorem userNames_eq_map_users_witness:
  "length (g_users sample_group) < 2 ^ 31
   \<and> userNames sample_group 2147483648 = map loginName (users sample_group 2147483648)
   \<and> userNames sample_group 2147483648 = [''ann'', ''root'', []]
   \<and> userNames sample_group 2 = [''ann'', ''root'']"
proof -
  have g: "g_users sample_group
       = [KUser_cstr sample_os (Some ''ann''), KUser_cstr sample_os (Some ''root''),
          KUser_cstr sample_os (Some ''bob'')]"
    by (simp add: sample_group_def KUserGroup_QString_def GPrivate_name_def c_str_def
        getgrnam_def sample_os_def fillGroup_def GPrivate_init_def)
  then have h: "length (g_users sample_group) < 2 ^ 31" by simp
  have u: "users sample_group 2147483648 = g_users sample_group"
    "users sample_group 2 = [KUser_cstr sample_os (Some ''ann''), KUser_cstr sample_os (Some ''root'')]"
    by (simp_all add: users_def mid0_def g)
  have n: "loginName (KUser_cstr sample_os (Some ''ann'')) = ''ann''"
    "loginName (KUser_cstr sample_os (Some ''root'')) = ''root''"
    "loginName (KUser_cstr sample_os (Some ''bob'')) = []"
    by (simp_all add: KUser_cstr_def Private_name_def sample_lookups ann_pw_def root_pw_def)
  show ?thesis
    using userNames_eq_map_users [OF h, of 2147483648] userNames_eq_map_users [OF h, of 2] h
    by (simp add: u g n)
qed

section \<open>Enumerating the databases\<close>



end
